theory Spec2Isabelle
  imports Main
begin

section \<open>JavaScript values used by the program\<close>

text \<open>
  A value of type \<open>string | undefined\<close> is a \<open>string option\<close>, \<open>None\<close> being
  \<open>undefined\<close> (or \<open>null\<close>). A string is truthy when it is defined and not empty.
  Strings are lists of 8-bit characters.
\<close>

definition truthy :: "string option \<Rightarrow> bool" where
  "truthy v = (case v of None \<Rightarrow> False | Some s \<Rightarrow> s \<noteq> [])"

text \<open>\<open>a || b\<close> on optional strings.\<close>

definition js_or :: "string option \<Rightarrow> string option \<Rightarrow> string option" where
  "js_or a b = (if truthy a then a else b)"

text \<open>A value spliced into a template literal: \<open>undefined\<close> prints as its name.\<close>

definition template :: "string option \<Rightarrow> string" where
  "template v = (case v of None \<Rightarrow> ''undefined'' | Some s \<Rightarrow> s)"

text \<open>\<open>Array.prototype.join\<close> and \<open>String.prototype.split\<close> with a one-character separator.\<close>

fun join :: "string \<Rightarrow> string list \<Rightarrow> string" where
  "join sep [] = []"
| "join sep [x] = x"
| "join sep (x # y # ys) = x @ sep @ join sep (y # ys)"

fun split :: "char \<Rightarrow> string \<Rightarrow> string list" where
  "split c [] = [[]]"
| "split c (x # xs) =
     (if x = c then [] # split c xs
      else (case split c xs of [] \<Rightarrow> [[x]] | y # ys \<Rightarrow> (x # y) # ys))"

text \<open>A non-negative number spliced into a template literal: its decimal digits.\<close>

fun decimal :: "nat \<Rightarrow> string" where
  "decimal n = (if n < 10 then [''0123456789'' ! n]
                else decimal (n div 10) @ [''0123456789'' ! (n mod 10)])"

declare decimal.simps [simp del]

section \<open>DependencyManager\<close>

record IDependency =
  dep_id :: string
  dep_name :: "string option"
  dep_group :: "string option"

text \<open>
  A quick-pick item (\<open>QuickPickItem & IDependenciesItem\<close>); \<open>item_id\<close> is its
  field \<open>id\<close>. In \<open>DependencyManager\<close>, \<open>dm_bootVersion\<close> is the field
  \<open>bootVersion\<close>.
\<close>

record item =
  description :: "string option"
  item_id :: "string option"
  itemType :: string
  label :: "string option"

text \<open>
  \<open>dict\<close> is a plain object used as a dictionary. Such an object has its own
  properties and a prototype, at first \<open>Object.prototype\<close>. Assigning to the key
  \<open>__proto__\<close> does not create a property: it makes the assigned object the prototype
  (\<open>proto\<close>, \<open>None\<close> while it is still \<open>Object.prototype\<close>).
\<close>

record plainObject =
  own :: "string \<rightharpoonup> IDependency"
  proto :: "IDependency option"

text \<open>
  A truthy value found under a key: a catalog entry, or something else that the
  prototype chain supplies, of which the program reads the property \<open>name\<close> only
  (\<open>id\<close> and \<open>group\<close> are undefined on it).
\<close>

datatype dictValue = Entry IDependency | Member "string option"

definition value_id :: "dictValue \<Rightarrow> string option" where
  "value_id v = (case v of Entry d \<Rightarrow> Some (dep_id d) | Member n \<Rightarrow> None)"

definition value_name :: "dictValue \<Rightarrow> string option" where
  "value_name v = (case v of Entry d \<Rightarrow> dep_name d | Member n \<Rightarrow> n)"

definition value_group :: "dictValue \<Rightarrow> string option" where
  "value_group v = (case v of Entry d \<Rightarrow> dep_group d | Member n \<Rightarrow> None)"

text \<open>
  The functions that every object inherits from \<open>Object.prototype\<close>, each with its
  property \<open>name\<close>.
\<close>

definition objectPrototypeFunctions :: "(string \<times> string) list" where
  "objectPrototypeFunctions =
     [(''constructor'', ''Object''),
      (''__defineGetter__'', ''__defineGetter__''),
      (''__defineSetter__'', ''__defineSetter__''),
      (''hasOwnProperty'', ''hasOwnProperty''),
      (''__lookupGetter__'', ''__lookupGetter__''),
      (''__lookupSetter__'', ''__lookupSetter__''),
      (''isPrototypeOf'', ''isPrototypeOf''),
      (''propertyIsEnumerable'', ''propertyIsEnumerable''),
      (''toString'', ''toString''),
      (''valueOf'', ''valueOf''),
      (''toLocaleString'', ''toLocaleString'')]"

text \<open>
  \<open>dict[key]\<close> read for its truthiness: the own property if there is one; under
  \<open>__proto__\<close> the prototype itself; else what the prototype chain has under the key,
  a non-empty field of an entry that was made the prototype (a string, which has no
  \<open>name\<close>) or a function of \<open>Object.prototype\<close>. \<open>None\<close> is a falsy result.
\<close>

definition dictGet :: "plainObject \<Rightarrow> string \<Rightarrow> dictValue option" where
  "dictGet obj key =
     (case own obj key of
        Some d \<Rightarrow> Some (Entry d)
      | None \<Rightarrow>
          if key = ''__proto__'' then
            (case proto obj of Some d \<Rightarrow> Some (Entry d) | None \<Rightarrow> Some (Member None))
          else
            (let field =
               (case proto obj of
                  None \<Rightarrow> None
                | Some d \<Rightarrow>
                    if key = ''id'' then Some (Some (dep_id d))
                    else if key = ''name'' \<and> dep_name d \<noteq> None then Some (dep_name d)
                    else if key = ''group'' \<and> dep_group d \<noteq> None then Some (dep_group d)
                    else None)
             in case field of
                  Some v \<Rightarrow> if truthy v then Some (Member None) else None
                | None \<Rightarrow> map_option (\<lambda>n. Member (Some n)) (map_of objectPrototypeFunctions key)))"

text \<open>\<open>dict[key] = dep\<close>.\<close>

definition dictSet :: "plainObject \<Rightarrow> string \<Rightarrow> IDependency \<Rightarrow> plainObject" where
  "dictSet obj key dep =
     (if key = ''__proto__'' then obj\<lparr>proto := Some dep\<rparr> else obj\<lparr>own := (own obj)(key \<mapsto> dep)\<rparr>)"

record DependencyManager =
  dm_bootVersion :: string
  lastselected :: "string option"
  dependencies :: "IDependency list"
  dict :: plainObject
  selectedIds :: "string list"

definition newSeparator :: "string option \<Rightarrow> item" where
  "newSeparator name = \<lparr>description = None, item_id = name, itemType = ''separator'', label = name\<rparr>"

text \<open>
  \<open>toggleDependency\<close>: \<open>indexOf(id) >= 0\<close> is membership; the present id is filtered
  out, the absent one is pushed at the end.
\<close>

definition toggleDependency :: "string \<Rightarrow> DependencyManager \<Rightarrow> DependencyManager" where
  "toggleDependency i dm =
     (if i \<in> set (selectedIds dm)
      then dm\<lparr>selectedIds := filter (\<lambda>x. x \<noteq> i) (selectedIds dm)\<rparr>
      else dm\<lparr>selectedIds := selectedIds dm @ [i]\<rparr>)"

text \<open>
  \<open>initialize\<close>: the undefined entries of the catalog are dropped, every entry with
  a truthy id is assigned to \<open>dict\<close> under its id, in the catalog's order, and
  the history file's content (\<open>None\<close> when it is missing) becomes \<open>lastselected\<close>.
\<close>

definition initialize :: "IDependency option list \<Rightarrow> string option \<Rightarrow> DependencyManager \<Rightarrow> DependencyManager" where
  "initialize catalog idList dm =
     (let deps = List.map_filter (\<lambda>d. d) catalog
      in dm\<lparr>dependencies := deps,
            dict := fold (\<lambda>d obj. if dep_id d \<noteq> [] then dictSet obj (dep_id d) d else obj) deps (dict dm),
            lastselected := idList\<rparr>)"

text \<open>
  \<open>getSelectedDependencies\<close>: the truthy values found under the selected ids. The
  source types them as entries; they are whatever \<open>dict\<close> yields.
\<close>

definition getSelectedDependencies :: "DependencyManager \<Rightarrow> dictValue list" where
  "getSelectedDependencies dm = List.map_filter (dictGet (dict dm)) (selectedIds dm)"

definition getUnselectedDependencies :: "DependencyManager \<Rightarrow> IDependency list" where
  "getUnselectedDependencies dm =
     filter (\<lambda>d. dep_id d \<notin> set (selectedIds dm)) (dependencies dm)"

definition genLastSelectedItem :: "DependencyManager \<Rightarrow> string \<Rightarrow> item option" where
  "genLastSelectedItem dm idList =
     (let availIdList = filter (\<lambda>i. dictGet (dict dm) i \<noteq> None) (split CHR '','' idList);
          availNameList =
            List.map_filter (\<lambda>i. case dictGet (dict dm) i of None \<Rightarrow> None | Some v \<Rightarrow> value_name v)
              availIdList
      in if availNameList \<noteq> []
         then Some \<lparr>description = Some (join '', '' availNameList),
                    item_id = Some (join '','' availIdList),
                    itemType = ''lastUsed'',
                    label = Some ''$(clock) Last used''\<rparr>
         else None)"

definition dependencyItem :: "IDependency \<Rightarrow> item" where
  "dependencyItem d = \<lparr>description = dep_group d, item_id = Some (dep_id d),
                        itemType = ''dependency'', label = dep_name d\<rparr>"

definition selectedItem :: "dictValue \<Rightarrow> item" where
  "selectedItem v = \<lparr>description = value_group v, item_id = value_id v,
                      itemType = ''dependency'', label = Some (''(selected) '' @ template (value_name v))\<rparr>"

text \<open>
  The loop over the unselected entries. \<open>grp\<close> is the loop's local variable \<open>group\<close>, declared
  without a value (\<open>None\<close>); \<open>ret\<close> is the list under construction.
\<close>

fun unselectedLoop :: "string option \<Rightarrow> IDependency list \<Rightarrow> item list \<Rightarrow> item list" where
  "unselectedLoop grp [] ret = ret"
| "unselectedLoop grp (d # ds) ret =
     (if grp \<noteq> None \<and> grp \<noteq> dep_group d
      then unselectedLoop (dep_group d) ds (ret @ [newSeparator (dep_group d)] @ [dependencyItem d])
      else unselectedLoop grp ds (ret @ [dependencyItem d]))"

text \<open>
  \<open>getQuickPickItems\<close>. When the catalog is still empty it is first initialised from
  the service's answer \<open>fetched\<close> and the history file's content \<open>history\<close>; the
  function returns the list and the manager it leaves behind.
\<close>

definition getQuickPickItems ::
  "IDependency option list \<Rightarrow> string option \<Rightarrow> bool \<Rightarrow> DependencyManager \<Rightarrow> item list \<times> DependencyManager" where
  "getQuickPickItems fetched history hasLastSelected dm0 =
     (let dm = (if dependencies dm0 = [] then initialize fetched history dm0 else dm0);
          n = length (selectedIds dm);
          ret1 = (if n = 0 \<and> hasLastSelected
                  then (case lastselected dm of
                          None \<Rightarrow> []
                        | Some idList \<Rightarrow>
                            if idList = [] then []
                            else (case genLastSelectedItem dm idList of None \<Rightarrow> [] | Some it \<Rightarrow> [it]))
                  else []);
          ret2 = ret1 @ [\<lparr>description = Some [],
                           item_id = Some (join '','' (selectedIds dm)),
                           itemType = ''selection'',
                           label = Some (''Selected '' @ decimal n @ '' dependenc'' @ (if n = 1 then ''y'' else ''ies''))\<rparr>];
          selectedDeps = getSelectedDependencies dm;
          ret3 = (if selectedDeps \<noteq> []
                  then ret2 @ [newSeparator (Some ''Selected'')] @ map selectedItem selectedDeps
                  else ret2);
          unselectedDeps = getUnselectedDependencies dm
      in (if unselectedDeps \<noteq> [] then unselectedLoop None unselectedDeps ret3 else ret3, dm))"

section \<open>The wizard's steps\<close>

datatype step =
    SpecifyServiceUrlStep
  | SpecifyBootVersionStep
  | SpecifyLanguageStep
  | SpecifyGroupIdStep
  | SpecifyArtifactIdStep
  | SpecifyPackageNameStep
  | SpecifyPackagingStep
  | SpecifyJavaVersionStep
  | SpecifyDependenciesStep

text \<open>
  The two exceptions the program throws, each with its message. A function that can
  throw returns \<open>Inl\<close> of the exception; the wizard and the patcher end there.
\<close>

datatype error = OperationCanceledError string | UserError string

text \<open>
  \<open>IDefaultProjectData\<close> and \<open>IProjectMetadata\<close>, with the fields the steps read and
  write. \<open>pickSteps\<close> is the navigation stack: \<open>push\<close> appends at the end of the list
  and \<open>pop\<close> takes the last element off. The fields \<open>md_groupId\<close>, \<open>md_artifactId\<close>,
  \<open>md_bootVersion\<close> and \<open>md_dependencies\<close> are \<open>groupId\<close>, \<open>artifactId\<close>,
  \<open>bootVersion\<close> and \<open>dependencies\<close> of the source.
\<close>

record IDefaultProjectData =
  default_language :: "string option"
  default_packaging :: "string option"
  default_artifactId :: "string option"
  default_dependencies :: "string list option"
  default_targetFolder :: "string option"

record IProjectMetadata =
  serviceUrl :: "string option"
  language :: "string option"
  javaVersion :: "string option"
  md_groupId :: "string option"
  md_artifactId :: "string option"
  packageName :: "string option"
  packaging :: "string option"
  md_bootVersion :: "string option"
  md_dependencies :: "item option"
  pickSteps :: "step list"
  defaults :: IDefaultProjectData
  parentFolder :: "string option"

text \<open>
  The step objects are process-wide singletons; three of them cache the last input.
  The wizard's state is the descriptor together with these three caches.
\<close>

record wizard =
  metadata :: IProjectMetadata
  groupIdDefaultInput :: "string option"
  artifactIdDefaultInput :: "string option"
  packageNameDefaultInput :: "string option"

text \<open>The settings read from the host's configuration section \<open>spring.initializr\<close>.\<close>

datatype serviceUrlSetting = SingleUrl string | UrlList "string list"

record configuration =
  cfg_serviceUrl :: serviceUrlSetting
  defaultLanguage :: "string option"
  defaultPackaging :: "string option"
  defaultArtifactId :: "string option"

text \<open>An entry of a pick box (\<open>IHandlerItem\<close>): its label and the id of its value.\<close>

record IHandlerItem =
  hi_label :: "string option"
  hi_value_id :: "string option"

text \<open>
  \<open>String.prototype.toLowerCase\<close> on 8-bit characters: the letters \<open>A\<close> to \<open>Z\<close> and the
  upper-case letters of Latin-1 (codes 192 to 222 without 215) move up by 32, which
  sets the bit of weight 32 (it is clear in all of them).
\<close>

definition toLowerChar :: "char \<Rightarrow> char" where
  "toLowerChar c =
     (let n = (of_char c :: nat)
      in if (65 \<le> n \<and> n \<le> 90) \<or> (192 \<le> n \<and> n \<le> 222 \<and> n \<noteq> 215)
         then Char (digit0 c) (digit1 c) (digit2 c) (digit3 c) (digit4 c) True (digit6 c) (digit7 c)
         else c)"

definition toLowerCase :: "string \<Rightarrow> string" where
  "toLowerCase s = map toLowerChar s"

text \<open>\<open>Array.prototype.pop\<close>: the last element, or \<open>undefined\<close> on the empty array.\<close>

definition pop :: "'a list \<Rightarrow> 'a option \<times> 'a list" where
  "pop xs = (if xs = [] then (None, []) else (Some (last xs), butlast xs))"

definition DEFAULT_SERVICE_URL :: string where
  "DEFAULT_SERVICE_URL = ''https://start.spring.io''"

text \<open>
  \<open>specifyServiceUrl\<close>. \<open>answer\<close> is what the user picks when the quick pick is shown
  (\<open>None\<close> when it is dismissed). The descriptor is optional, as in the source.
\<close>

definition specifyServiceUrl ::
  "configuration \<Rightarrow> string option \<Rightarrow> IProjectMetadata option \<Rightarrow> string option \<times> IProjectMetadata option" where
  "specifyServiceUrl cfg answer projectMetadata =
     (case cfg_serviceUrl cfg of
        SingleUrl configValue \<Rightarrow> (Some configValue, projectMetadata)
      | UrlList configValue \<Rightarrow>
          if length configValue > 0 then
            (if length configValue = 1 then (Some (hd configValue), projectMetadata)
             else (answer,
                   map_option (\<lambda>md. md\<lparr>pickSteps := pickSteps md @ [SpecifyServiceUrlStep]\<rparr>) projectMetadata))
          else (Some DEFAULT_SERVICE_URL, projectMetadata))"

text \<open>
  \<open>createPickBox\<close>. \<open>selected\<close> is the entry the user picks, \<open>None\<close> when the pick box
  is dismissed.
\<close>

definition createPickBox ::
  "step \<Rightarrow> IHandlerItem option \<Rightarrow> IProjectMetadata \<Rightarrow> error + (bool \<times> IProjectMetadata)" where
  "createPickBox pickStep selected md =
     (case selected of
        None \<Rightarrow>
          if pickStep = SpecifyLanguageStep then Inl (OperationCanceledError ''Language not specified.'')
          else if pickStep = SpecifyJavaVersionStep then Inl (OperationCanceledError ''Java version not specified.'')
          else if pickStep = SpecifyPackagingStep then Inl (OperationCanceledError ''Packaging not specified.'')
          else if pickStep = SpecifyBootVersionStep then Inl (OperationCanceledError ''BootVersion not specified.'')
          else Inr (False, md)
      | Some sel \<Rightarrow>
          (let md1 =
             (if pickStep = SpecifyLanguageStep then md\<lparr>language := map_option toLowerCase (hi_label sel)\<rparr>
              else if pickStep = SpecifyJavaVersionStep then md\<lparr>javaVersion := hi_value_id sel\<rparr>
              else if pickStep = SpecifyPackagingStep then md\<lparr>packaging := map_option toLowerCase (hi_label sel)\<rparr>
              else if pickStep = SpecifyBootVersionStep then md\<lparr>md_bootVersion := hi_value_id sel\<rparr>
              else md)
           in Inr (True, md1\<lparr>pickSteps := pickSteps md1 @ [pickStep]\<rparr>)))"

text \<open>
  \<open>createInputBox\<close>. \<open>input\<close> is what the user enters, \<open>None\<close> when the input box is
  dismissed. The entered text is stored as it is.
\<close>

definition createInputBox ::
  "step \<Rightarrow> string option \<Rightarrow> wizard \<Rightarrow> error + (bool \<times> wizard)" where
  "createInputBox pickStep input w =
     (case input of
        None \<Rightarrow>
          if pickStep = SpecifyGroupIdStep then Inl (OperationCanceledError ''GroupId not specified.'')
          else if pickStep = SpecifyArtifactIdStep then Inl (OperationCanceledError ''ArtifactId not specified.'')
          else if pickStep = SpecifyPackageNameStep then Inl (OperationCanceledError ''PackageName not specified.'')
          else Inr (False, w)
      | Some v \<Rightarrow>
          (let md = metadata w in
           if pickStep = SpecifyGroupIdStep then
             Inr (True, w\<lparr>metadata := md\<lparr>md_groupId := Some v, pickSteps := pickSteps md @ [SpecifyGroupIdStep]\<rparr>,
                          groupIdDefaultInput := Some v\<rparr>)
           else if pickStep = SpecifyArtifactIdStep then
             Inr (True, w\<lparr>metadata := md\<lparr>md_artifactId := Some v, pickSteps := pickSteps md @ [SpecifyArtifactIdStep]\<rparr>,
                          artifactIdDefaultInput := Some v\<rparr>)
           else if pickStep = SpecifyPackageNameStep then
             Inr (True, w\<lparr>metadata := md\<lparr>packageName := Some v, pickSteps := pickSteps md @ [SpecifyPackageNameStep]\<rparr>,
                          packageNameDefaultInput := Some v\<rparr>)
           else Inr (True, w)))"

text \<open>
  Modelled from the spec: \<open>getNextStep\<close> of the GroupId, PackageName and JavaVersion
  steps, whose classes are not among the sources at hand. The spec fixes the order
  ServiceUrl, BootVersion, Language, GroupId, ArtifactId, PackageName, Packaging,
  JavaVersion, Dependencies.
\<close>

fun getNextStep_absent :: "step \<Rightarrow> step option" where
  "getNextStep_absent SpecifyGroupIdStep = Some SpecifyArtifactIdStep"
| "getNextStep_absent SpecifyPackageNameStep = Some SpecifyPackagingStep"
| "getNextStep_absent SpecifyJavaVersionStep = Some SpecifyDependenciesStep"
| "getNextStep_absent _ = None"

text \<open>
  \<open>getNextStep\<close> of each step class; \<open>None\<close> is \<open>undefined\<close>, the end of the chain,
  which the Dependencies step returns.
\<close>

fun getNextStep :: "step \<Rightarrow> step option" where
  "getNextStep SpecifyServiceUrlStep = Some SpecifyBootVersionStep"
| "getNextStep SpecifyBootVersionStep = Some SpecifyLanguageStep"
| "getNextStep SpecifyLanguageStep = Some SpecifyGroupIdStep"
| "getNextStep SpecifyArtifactIdStep = Some SpecifyPackageNameStep"
| "getNextStep SpecifyPackagingStep = Some SpecifyJavaVersionStep"
| "getNextStep SpecifyDependenciesStep = None"
| "getNextStep s = getNextStep_absent s"

text \<open>
  The tail shared by the \<open>execute\<close> methods: when the step's question reports
  \<open>false\<close> the navigation stack is popped and its top is the step to run next,
  otherwise the chain moves on to \<open>getNextStep\<close>.
\<close>

definition popOrNext :: "step \<Rightarrow> bool \<Rightarrow> IProjectMetadata \<Rightarrow> step option \<times> IProjectMetadata" where
  "popOrNext s ok md =
     (if \<not> ok then (fst (pop (pickSteps md)), md\<lparr>pickSteps := snd (pop (pickSteps md))\<rparr>)
      else (getNextStep s, md))"

text \<open>\<open>SpecifyArtifactIdStep\<close>: \<open>resetDefaultInput\<close>, \<open>specifyArtifactId\<close> and \<open>execute\<close>.\<close>

definition SpecifyArtifactIdStep_resetDefaultInput :: "configuration \<Rightarrow> wizard \<Rightarrow> wizard" where
  "SpecifyArtifactIdStep_resetDefaultInput cfg w = w\<lparr>artifactIdDefaultInput := defaultArtifactId cfg\<rparr>"

text \<open>The text the input box is filled with before the user types.\<close>

definition SpecifyArtifactIdStep_defaultValue :: "wizard \<Rightarrow> string" where
  "SpecifyArtifactIdStep_defaultValue w =
     (case js_or (js_or (default_artifactId (defaults (metadata w))) (artifactIdDefaultInput w)) (Some [])
      of None \<Rightarrow> [] | Some v \<Rightarrow> v)"

definition specifyArtifactId :: "string option \<Rightarrow> wizard \<Rightarrow> error + (bool \<times> wizard)" where
  "specifyArtifactId input w = createInputBox SpecifyArtifactIdStep input w"

definition SpecifyArtifactIdStep_execute :: "string option \<Rightarrow> wizard \<Rightarrow> error + (step option \<times> wizard)" where
  "SpecifyArtifactIdStep_execute input w =
     (case specifyArtifactId input w of
        Inl e \<Rightarrow> Inl e
      | Inr (ok, w1) \<Rightarrow>
          (let (next, md) = popOrNext SpecifyArtifactIdStep ok (metadata w1)
           in Inr (next, w1\<lparr>metadata := md\<rparr>)))"

text \<open>\<open>SpecifyLanguageStep\<close>: \<open>specifyLanguage\<close> and \<open>execute\<close>.\<close>

definition specifyLanguage ::
  "configuration \<Rightarrow> IHandlerItem option \<Rightarrow> IProjectMetadata \<Rightarrow> error + (bool \<times> IProjectMetadata)" where
  "specifyLanguage cfg selected md =
     (let lang = js_or (default_language (defaults md)) (defaultLanguage cfg)
      in if truthy lang then Inr (True, md\<lparr>language := map_option toLowerCase lang\<rparr>)
         else createPickBox SpecifyLanguageStep selected md)"

definition SpecifyLanguageStep_execute ::
  "configuration \<Rightarrow> IHandlerItem option \<Rightarrow> IProjectMetadata \<Rightarrow> error + (step option \<times> IProjectMetadata)" where
  "SpecifyLanguageStep_execute cfg selected md =
     (case specifyLanguage cfg selected md of
        Inl e \<Rightarrow> Inl e
      | Inr (ok, md1) \<Rightarrow> Inr (popOrNext SpecifyLanguageStep ok md1))"

text \<open>\<open>SpecifyPackagingStep\<close>: \<open>specifyPackaging\<close> and \<open>execute\<close>.\<close>

definition specifyPackaging ::
  "configuration \<Rightarrow> IHandlerItem option \<Rightarrow> IProjectMetadata \<Rightarrow> error + (bool \<times> IProjectMetadata)" where
  "specifyPackaging cfg selected md =
     (let pack = js_or (default_packaging (defaults md)) (defaultPackaging cfg)
      in if truthy pack then Inr (True, md\<lparr>packaging := map_option toLowerCase pack\<rparr>)
         else createPickBox SpecifyPackagingStep selected md)"

definition SpecifyPackagingStep_execute ::
  "configuration \<Rightarrow> IHandlerItem option \<Rightarrow> IProjectMetadata \<Rightarrow> error + (step option \<times> IProjectMetadata)" where
  "SpecifyPackagingStep_execute cfg selected md =
     (case specifyPackaging cfg selected md of
        Inl e \<Rightarrow> Inl e
      | Inr (ok, md1) \<Rightarrow> Inr (popOrNext SpecifyPackagingStep ok md1))"

text \<open>\<open>SpecifyBootVersionStep\<close> and \<open>SpecifyServiceUrlStep\<close>.\<close>

definition SpecifyBootVersionStep_execute ::
  "IHandlerItem option \<Rightarrow> IProjectMetadata \<Rightarrow> error + (step option \<times> IProjectMetadata)" where
  "SpecifyBootVersionStep_execute selected md =
     (case createPickBox SpecifyBootVersionStep selected md of
        Inl e \<Rightarrow> Inl e
      | Inr (ok, md1) \<Rightarrow> Inr (popOrNext SpecifyBootVersionStep ok md1))"

definition SpecifyServiceUrlStep_execute ::
  "configuration \<Rightarrow> string option \<Rightarrow> IProjectMetadata \<Rightarrow> error + (step option \<times> IProjectMetadata)" where
  "SpecifyServiceUrlStep_execute cfg answer md =
     (case specifyServiceUrl cfg answer (Some md) of
        (url, md1) \<Rightarrow>
          (let md2 = (case md1 of None \<Rightarrow> md | Some m \<Rightarrow> m)\<lparr>serviceUrl := url\<rparr>
           in if url = None then Inl (OperationCanceledError ''Service URL not specified.'')
              else Inr (getNextStep SpecifyServiceUrlStep, md2)))"

section \<open>The build descriptor patcher\<close>

subsection \<open>Documents, positions and edits of the host\<close>

record position =
  line :: nat
  character :: nat

record range =
  range_start :: position
  range_end :: position

text \<open>
  A text document of the host, with the three operations the patcher calls:
  \<open>getText()\<close>, \<open>positionAt(offset)\<close> and \<open>getText(range)\<close> (here \<open>getTextRange\<close>).
  They belong to the host, so a document carries them as fields.
\<close>

record textDocument =
  uri :: string
  getText :: string
  positionAt :: "int \<Rightarrow> position"
  getTextRange :: "range \<Rightarrow> string"

record textEdit =
  edit_range :: range
  newText :: string

text \<open>A workspace edit: \<open>changes\<close> maps a document's uri to the edits of that document.\<close>

record workspaceEdit =
  changes :: "string \<rightharpoonup> textEdit list"

text \<open>The host as far as the patcher changes it: the workspace edits handed to \<open>applyEdit\<close>, in order.\<close>

record host =
  applied :: "workspaceEdit list"

definition Position_create :: "nat \<Rightarrow> nat \<Rightarrow> position" where
  "Position_create l c = \<lparr>line = l, character = c\<rparr>"

definition Range_create :: "position \<Rightarrow> position \<Rightarrow> range" where
  "Range_create s e = \<lparr>range_start = s, range_end = e\<rparr>"

definition TextEdit_insert :: "position \<Rightarrow> string \<Rightarrow> textEdit" where
  "TextEdit_insert pos txt = \<lparr>edit_range = Range_create pos pos, newText = txt\<rparr>"

definition applyEdit :: "workspaceEdit \<Rightarrow> host \<Rightarrow> host" where
  "applyEdit e h = h\<lparr>applied := applied h @ [e]\<rparr>"

text \<open>
  White space as \<open>String.prototype.trim\<close> and the pattern \<open>\s\<close> read it, on 8-bit
  characters: tab, line feed, vertical tab, form feed, carriage return, space and
  the no-break space.
\<close>

definition isWhiteSpace :: "char \<Rightarrow> bool" where
  "isWhiteSpace c = ((of_char c :: nat) \<in> {9, 10, 11, 12, 13, 32, 160})"

definition trim :: "string \<Rightarrow> string" where
  "trim s = rev (dropWhile isWhiteSpace (rev (dropWhile isWhiteSpace s)))"

subsection \<open>Parsed elements\<close>

text \<open>
  An element of the parsed document with its tag name, the offsets of its first and
  last character, and its children; a child is an element (\<open>Tag\<close>) or any other
  node (text, comment, ...).
\<close>

datatype element = Element (name: string) (startIndex: int) (endIndex: int) (children: "node list")
  and node = Tag element | NonTag

text \<open>
  Modelled from the spec: the member \<open>Project\<close> of the enumeration \<open>XmlTagName\<close>,
  which the lexer module declares; the spec calls the root the \<open>project\<close> element.
\<close>

definition XmlTagName_Project :: string where
  "XmlTagName_Project = ''project''"

text \<open>
  Modelled from the spec: the member \<open>Dependencies\<close> of \<open>XmlTagName\<close>; the spec
  names the element \<open>dependencies\<close>.
\<close>

definition XmlTagName_Dependencies :: string where
  "XmlTagName_Dependencies = ''dependencies''"

text \<open>
  Modelled from the spec: the member \<open>DependencyManagement\<close> of \<open>XmlTagName\<close>; the
  spec names the element \<open>dependencyManagement\<close>.
\<close>

definition XmlTagName_DependencyManagement :: string where
  "XmlTagName_DependencyManagement = ''dependencyManagement''"

text \<open>
  What the patcher takes from its surroundings: the lexer's \<open>getNodesByTag\<close> (text and
  tag name to the elements with that tag, or \<open>undefined\<close>), the options of the active
  editor, and the platform's name.
\<close>

record env =
  getNodesByTag :: "string \<Rightarrow> string \<Rightarrow> element list option"
  insertSpaces :: bool
  tabSize :: nat
  platform :: string

text \<open>\<open>children.find((node) => isTag(node) && node.tagName === tag)\<close>.\<close>

fun findChild :: "string \<Rightarrow> node list \<Rightarrow> element option" where
  "findChild tag [] = None"
| "findChild tag (NonTag # ns) = findChild tag ns"
| "findChild tag (Tag e # ns) = (if name e = tag then Some e else findChild tag ns)"

subsection \<open>Fragments and their text\<close>

record IArtifact =
  groupId :: string
  artifactId :: string
  version :: "string option"
  scope :: "string option"

text \<open>\<open>IBom\<close>; its fields \<open>scope\<close> and \<open>type\<close> are never read.\<close>

record IBom =
  bom_groupId :: string
  bom_artifactId :: string
  bom_version :: string

text \<open>
  The two classes of \<open>PomNode\<close> with their constructor arguments: the artifacts and
  the option \<open>initParent\<close>, the boms and the option \<open>parents\<close>.
\<close>

datatype PomNode = DependencyNodes "IArtifact list" bool | BOMNodes "IBom list" "string list option"

definition wrapWithParentNode :: "string list \<Rightarrow> string \<Rightarrow> string \<Rightarrow> string list" where
  "wrapWithParentNode lines indent parent =
     [''<'' @ parent @ ''>''] @ map (\<lambda>l. indent @ l) lines @ [''</'' @ parent @ ''>'']"

text \<open>
  \<open>toTextLine\<close>: an entry of the array literal is \<open>None\<close> where the source's
  expression is falsy, and \<open>filter(Boolean)\<close> keeps the others.
\<close>

definition toTextLine :: "IArtifact \<Rightarrow> string \<Rightarrow> string list" where
  "toTextLine artifact indent =
     (let lines = List.map_filter (\<lambda>l. l)
        [Some (''<groupId>'' @ groupId artifact @ ''</groupId>''),
         Some (''<artifactId>'' @ artifactId artifact @ ''</artifactId>''),
         (if truthy (version artifact) then Some (''<version>'' @ template (version artifact) @ ''</version>'') else None),
         (if truthy (scope artifact) \<and> scope artifact \<noteq> Some ''compile''
          then Some (''<scope>'' @ template (scope artifact) @ ''</scope>'') else None)]
      in wrapWithParentNode lines indent ''dependency'')"

definition bomToTextLine :: "IBom \<Rightarrow> string \<Rightarrow> string list" where
  "bomToTextLine bom indent =
     (let lines =
        [''<groupId>'' @ bom_groupId bom @ ''</groupId>'',
         ''<artifactId>'' @ bom_artifactId bom @ ''</artifactId>'',
         ''<version>'' @ bom_version bom @ ''</version>'',
         ''<type>pom</type>'',
         ''<scope>import</scope>'']
      in wrapWithParentNode lines indent ''dependency'')"

fun getTextLines :: "PomNode \<Rightarrow> string \<Rightarrow> string list" where
  "getTextLines (DependencyNodes artifacts initParent) indent =
     (let listOfLines = concat (map (\<lambda>artifact. toTextLine artifact indent) artifacts)
      in if initParent then wrapWithParentNode listOfLines indent ''dependencies'' else listOfLines)"
| "getTextLines (BOMNodes boms parents) indent =
     (let listOfLines = concat (map (\<lambda>bom. bomToTextLine bom indent) boms)
      in case parents of
           None \<Rightarrow> listOfLines
         | Some ps \<Rightarrow> fold (\<lambda>parent ls. wrapWithParentNode ls indent parent) ps listOfLines)"

definition constructNodeText :: "PomNode \<Rightarrow> string \<Rightarrow> string \<Rightarrow> string \<Rightarrow> string" where
  "constructNodeText nodeToInsert baseIndent indent eol =
     join (eol @ baseIndent @ indent) ([] # getTextLines nodeToInsert indent) @ eol"

subsection \<open>Computing and applying the edit\<close>

definition getIndentation :: "textDocument \<Rightarrow> int \<Rightarrow> string" where
  "getIndentation document offset =
     (let pos = positionAt document offset;
          lineContentToPos = getTextRange document (Range_create (Position_create (line pos) 0) pos)
      in takeWhile isWhiteSpace lineContentToPos)"

text \<open>The offset at which the closing tag of \<open>parentNode\<close> starts, as the source computes it.\<close>

definition insertOffset :: "element \<Rightarrow> int" where
  "insertOffset parentNode = endIndex parentNode - (int (length (name parentNode)) + 3) + 1"

text \<open>
  The position of the insertion: that of \<open>insertOffset\<close>, moved to the start of its
  line when only white space precedes it there.
\<close>

definition insertPosition :: "textDocument \<Rightarrow> element \<Rightarrow> position" where
  "insertPosition currentDocument parentNode =
     (let insertPos = positionAt currentDocument (insertOffset parentNode);
          insPosLineStart = Position_create (line insertPos) 0;
          contentBefore = getTextRange currentDocument (Range_create insPosLineStart insertPos)
      in if trim contentBefore = [] then insPosLineStart else insertPos)"

text \<open>The indentation unit of the active editor and the platform's line ending.\<close>

definition editorIndent :: "env \<Rightarrow> string" where
  "editorIndent ev = (if insertSpaces ev then replicate (tabSize ev) CHR '' '' else [CHR 0x09])"

definition platformEol :: "env \<Rightarrow> string" where
  "platformEol ev = (if platform ev \<noteq> ''win32'' then [CHR 0x0A] else [CHR 0x0D, CHR 0x0A])"

definition updateWorkspaceEdit ::
  "env \<Rightarrow> workspaceEdit \<Rightarrow> textDocument \<Rightarrow> element \<Rightarrow> PomNode \<Rightarrow> workspaceEdit" where
  "updateWorkspaceEdit ev edit currentDocument parentNode nodeToInsert =
     (let baseIndent = getIndentation currentDocument (startIndex parentNode);
          insertPos = insertPosition currentDocument parentNode;
          indent = editorIndent ev;
          eol = platformEol ev;
          targetText = constructNodeText nodeToInsert baseIndent indent eol;
          textEdit = TextEdit_insert insertPos targetText
      in edit\<lparr>changes := (changes edit)(uri currentDocument \<mapsto> [textEdit])\<rparr>)"

definition getActiveProjectNode :: "env \<Rightarrow> textDocument \<Rightarrow> error + element" where
  "getActiveProjectNode ev baseDocument =
     (case getNodesByTag ev (getText baseDocument) XmlTagName_Project of
        None \<Rightarrow> Inl (UserError ''Only support POM file with single <project> node.'')
      | Some projectNodes \<Rightarrow>
          if length projectNodes \<noteq> 1
          then Inl (UserError ''Only support POM file with single <project> node.'')
          else Inr (hd projectNodes))"

text \<open>
  \<open>updatePom\<close>: the result, an exception or the normal return, and the host it leaves.
\<close>

definition updatePom ::
  "env \<Rightarrow> textDocument \<Rightarrow> IArtifact list \<Rightarrow> IBom list \<Rightarrow> host \<Rightarrow> (error + unit) \<times> host" where
  "updatePom ev document deps boms h =
     (let edit = \<lparr>changes = Map.empty\<rparr> in
      case getActiveProjectNode ev document of
        Inl e \<Rightarrow> (Inl e, h)
      | Inr projectNode \<Rightarrow>
          (let edit1 =
             (case findChild XmlTagName_Dependencies (children projectNode) of
                Some dependenciesNode \<Rightarrow>
                  updateWorkspaceEdit ev edit document dependenciesNode (DependencyNodes deps False)
              | None \<Rightarrow>
                  updateWorkspaceEdit ev edit document projectNode (DependencyNodes deps True));
               edit2 =
             (if length boms > 0 then
                (case findChild XmlTagName_DependencyManagement (children projectNode) of
                   Some depMgmtNode \<Rightarrow>
                     (case findChild XmlTagName_Dependencies (children depMgmtNode) of
                        Some depsNodes \<Rightarrow>
                          updateWorkspaceEdit ev edit1 document depsNodes (BOMNodes boms None)
                      | None \<Rightarrow>
                          updateWorkspaceEdit ev edit1 document depMgmtNode
                            (BOMNodes boms (Some [''dependencies''])))
                 | None \<Rightarrow>
                     updateWorkspaceEdit ev edit1 document projectNode
                       (BOMNodes boms (Some [''dependencies'', ''dependencyManagement''])))
              else edit1)
           in (Inr (), applyEdit edit2 h)))"

section \<open>The identifier patterns\<close>

text \<open>
  The regular expressions of the three validation functions, as a datatype:
  a character class, concatenation, and the iterations \<open>*\<close> and \<open>+\<close>.
  The patterns are anchored at both ends, so \<open>test\<close> asks for a match of the
  whole string; \<open>matches\<close> decides it by taking the derivative of the
  expression by each character in turn.
\<close>

datatype regex =
    Never
  | Empty
  | Class "char list"
  | Seq regex regex
  | Alt regex regex
  | Star regex

definition Plus :: "regex \<Rightarrow> regex" where
  "Plus r = Seq r (Star r)"

fun nullable :: "regex \<Rightarrow> bool" where
  "nullable Never = False"
| "nullable Empty = True"
| "nullable (Class cs) = False"
| "nullable (Seq r s) = (nullable r \<and> nullable s)"
| "nullable (Alt r s) = (nullable r \<or> nullable s)"
| "nullable (Star r) = True"

fun deriv :: "char \<Rightarrow> regex \<Rightarrow> regex" where
  "deriv c Never = Never"
| "deriv c Empty = Never"
| "deriv c (Class cs) = (if c \<in> set cs then Empty else Never)"
| "deriv c (Seq r s) = (if nullable r then Alt (Seq (deriv c r) s) (deriv c s) else Seq (deriv c r) s)"
| "deriv c (Alt r s) = Alt (deriv c r) (deriv c s)"
| "deriv c (Star r) = Seq (deriv c r) (Star r)"

definition matches :: "regex \<Rightarrow> string \<Rightarrow> bool" where
  "matches r s = nullable (fold deriv s r)"

text \<open>The classes \<open>[a-z_]\<close> and \<open>[a-z0-9_]\<close>, the dot and the hyphen.\<close>

definition lowerOrUnderscore :: regex where
  "lowerOrUnderscore = Class ''abcdefghijklmnopqrstuvwxyz_''"

definition lowerDigitOrUnderscore :: regex where
  "lowerDigitOrUnderscore = Class ''abcdefghijklmnopqrstuvwxyz0123456789_''"

text \<open>\<open>/^[a-z_][a-z0-9_]*(\.[a-z0-9_]+)*$/\<close>, the pattern of group ids and package names.\<close>

definition dottedPattern :: regex where
  "dottedPattern =
     Seq lowerOrUnderscore
       (Seq (Star lowerDigitOrUnderscore)
            (Star (Seq (Class ''.'') (Plus lowerDigitOrUnderscore))))"

text \<open>\<open>/^[a-z_][a-z0-9_]*(-[a-z_][a-z0-9_]*)*$/\<close>, the pattern of artifact ids.\<close>

definition hyphenatedPattern :: regex where
  "hyphenatedPattern =
     Seq lowerOrUnderscore
       (Seq (Star lowerDigitOrUnderscore)
            (Star (Seq (Class ''-'') (Seq lowerOrUnderscore (Star lowerDigitOrUnderscore)))))"

text \<open>The validation functions: \<open>None\<close> (no complaint) on a match, the message otherwise.\<close>

definition groupIdValidation :: "string \<Rightarrow> string option" where
  "groupIdValidation v = (if matches dottedPattern v then None else Some ''Invalid Group Id'')"

definition artifactIdValidation :: "string \<Rightarrow> string option" where
  "artifactIdValidation v = (if matches hyphenatedPattern v then None else Some ''Invalid Artifact Id'')"

definition packageNameValidation :: "string \<Rightarrow> string option" where
  "packageNameValidation v = (if matches dottedPattern v then None else Some ''Invalid Package Name'')"

section \<open>Sample data\<close>

text \<open>A manager before its first use, and the catalog of two entries in two groups.\<close>

definition emptyManager :: DependencyManager where
  "emptyManager = \<lparr>dm_bootVersion = ''3.2.0'', lastselected = None, dependencies = [],
                    dict = \<lparr>own = Map.empty, proto = None\<rparr>, selectedIds = []\<rparr>"

definition catalogAB :: "IDependency option list" where
  "catalogAB = [Some \<lparr>dep_id = ''a'', dep_name = Some ''Web'', dep_group = Some ''Core''\<rparr>,
                Some \<lparr>dep_id = ''b'', dep_name = Some ''JPA'', dep_group = Some ''SQL''\<rparr>]"

text \<open>
  A descriptor at the start of a run, a wizard whose GroupId step has completed, and
  two configurations: one with the defaults of the README, one without defaults.
\<close>

definition freshMetadata :: IProjectMetadata where
  "freshMetadata =
     \<lparr>serviceUrl = None, language = None, javaVersion = None, md_groupId = None,
      md_artifactId = None, packageName = None, packaging = None, md_bootVersion = None,
      md_dependencies = None, pickSteps = [],
      defaults = \<lparr>default_language = None, default_packaging = None, default_artifactId = None,
                  default_dependencies = None, default_targetFolder = None\<rparr>,
      parentFolder = None\<rparr>"

definition wizardAfterGroupId :: wizard where
  "wizardAfterGroupId =
     \<lparr>metadata = freshMetadata\<lparr>md_groupId := Some ''com.example'', pickSteps := [SpecifyGroupIdStep]\<rparr>,
      groupIdDefaultInput = Some ''com.example'',
      artifactIdDefaultInput = Some ''demo'',
      packageNameDefaultInput = None\<rparr>"

definition readmeConfiguration :: configuration where
  "readmeConfiguration =
     \<lparr>cfg_serviceUrl = UrlList [''https://start.spring.io''],
      defaultLanguage = Some ''Java'', defaultPackaging = Some ''JAR'', defaultArtifactId = Some ''demo''\<rparr>"

definition bareConfiguration :: configuration where
  "bareConfiguration =
     \<lparr>cfg_serviceUrl = UrlList [], defaultLanguage = None, defaultPackaging = None, defaultArtifactId = None\<rparr>"

text \<open>
  A document of the host whose lines end at the line feed: \<open>positionAt\<close> walks to
  the offset counting lines and columns, \<open>getTextRange\<close> cuts the text between
  the offsets of two positions.
\<close>

fun walk :: "string \<Rightarrow> nat \<Rightarrow> position \<Rightarrow> position" where
  "walk [] k p = p"
| "walk (c # cs) k p =
     (if k = 0 then p
      else walk cs (k - 1)
             (if c = CHR 0x0A then \<lparr>line = line p + 1, character = 0\<rparr>
              else p\<lparr>character := character p + 1\<rparr>))"

fun offsetOf :: "string \<Rightarrow> position \<Rightarrow> nat" where
  "offsetOf [] p = 0"
| "offsetOf (c # cs) p =
     (if line p = 0
      then (if character p = 0 \<or> c = CHR 0x0A then 0
            else 1 + offsetOf cs (p\<lparr>character := character p - 1\<rparr>))
      else 1 + offsetOf cs (if c = CHR 0x0A then p\<lparr>line := line p - 1\<rparr> else p))"

definition lineDocument :: "string \<Rightarrow> string \<Rightarrow> textDocument" where
  "lineDocument u txt =
     \<lparr>uri = u, getText = txt,
      positionAt = (\<lambda>offset. walk txt (nat offset) \<lparr>line = 0, character = 0\<rparr>),
      getTextRange = (\<lambda>r. take (offsetOf txt (range_end r) - offsetOf txt (range_start r))
                             (drop (offsetOf txt (range_start r)) txt))\<rparr>"

text \<open>
  Build descriptors and their parsed elements: one with a dependency section and a
  dependency-management section holding its own dependency section, one with an empty
  dependency-management section only, one whose dependency-management element is
  self-closing, one with neither section, one with two roots and one without a root.
\<close>

definition pomFull :: textDocument where
  "pomFull = lineDocument ''file:///full/pom.xml''
     (join [CHR 0x0A]
        [''<project>'',
         ''  <dependencies>'',
         ''  </dependencies>'',
         ''  <dependencyManagement>'',
         ''    <dependencies>'',
         ''    </dependencies>'',
         ''  </dependencyManagement>'',
         ''</project>''])"

definition pomFull_managed :: element where
  "pomFull_managed = Element ''dependencies'' 74 107 [NonTag]"

definition pomFull_management :: element where
  "pomFull_management = Element ''dependencyManagement'' 47 133 [NonTag, Tag pomFull_managed, NonTag]"

definition pomFull_project :: element where
  "pomFull_project =
     Element ''project'' 0 144
       [NonTag, Tag (Element ''dependencies'' 12 43 [NonTag]), NonTag, Tag pomFull_management, NonTag]"

definition pomManagement :: textDocument where
  "pomManagement = lineDocument ''file:///management/pom.xml''
     (join [CHR 0x0A]
        [''<project>'',
         ''  <dependencyManagement>'',
         ''  </dependencyManagement>'',
         ''</project>''])"

definition pomManagement_management :: element where
  "pomManagement_management = Element ''dependencyManagement'' 12 59 [NonTag]"

definition pomManagement_project :: element where
  "pomManagement_project = Element ''project'' 0 70 [NonTag, Tag pomManagement_management, NonTag]"

definition pomSelfClosing :: textDocument where
  "pomSelfClosing = lineDocument ''file:///selfclosing/pom.xml''
     (join [CHR 0x0A]
        [''<project>'',
         ''  <dependencyManagement/>'',
         ''</project>''])"

definition pomSelfClosing_management :: element where
  "pomSelfClosing_management = Element ''dependencyManagement'' 12 34 []"

definition pomSelfClosing_project :: element where
  "pomSelfClosing_project = Element ''project'' 0 45 [NonTag, Tag pomSelfClosing_management, NonTag]"

definition pomBare :: textDocument where
  "pomBare = lineDocument ''file:///bare/pom.xml'' (join [CHR 0x0A] [''<project>'', ''</project>''])"

definition pomBare_project :: element where
  "pomBare_project = Element ''project'' 0 19 [NonTag]"

definition pomTwoRoots :: textDocument where
  "pomTwoRoots = lineDocument ''file:///two/pom.xml'' ''<project></project><project></project>''"

definition pomNoRoot :: textDocument where
  "pomNoRoot = lineDocument ''file:///none/pom.xml'' ''<settings></settings>''"

text \<open>
  The surroundings of the samples: a lexer that knows the documents above, an
  editor that indents by two spaces, and a platform other than Windows.
\<close>

definition sampleEnv :: env where
  "sampleEnv =
     \<lparr>getNodesByTag = (\<lambda>content tag.
         if tag \<noteq> ''project'' then None
         else if content = getText pomFull then Some [pomFull_project]
         else if content = getText pomManagement then Some [pomManagement_project]
         else if content = getText pomSelfClosing then Some [pomSelfClosing_project]
         else if content = getText pomBare then Some [pomBare_project]
         else if content = getText pomTwoRoots
           then Some [Element ''project'' 0 18 [], Element ''project'' 19 37 []]
         else Some []),
      insertSpaces = True, tabSize = 2, platform = ''linux''\<rparr>"

definition starterWeb :: IArtifact where
  "starterWeb = \<lparr>groupId = ''org.springframework.boot'', artifactId = ''spring-boot-starter-web'',
                 version = None, scope = None\<rparr>"

definition starterH2 :: IArtifact where
  "starterH2 = \<lparr>groupId = ''com.h2database'', artifactId = ''h2'',
                version = Some ''2.2.224'', scope = Some ''runtime''\<rparr>"

definition cloudBom :: IBom where
  "cloudBom = \<lparr>bom_groupId = ''org.springframework.cloud'', bom_artifactId = ''spring-cloud-dependencies'',
               bom_version = ''2023.0.0''\<rparr>"

definition noHost :: host where
  "noHost = \<lparr>applied = []\<rparr>"

section \<open>The dependency selection\<close>

lemma toggleDependency_selectedIds:
  "selectedIds (toggleDependency i dm) =
     (if i \<in> set (selectedIds dm) then filter (\<lambda>x. x \<noteq> i) (selectedIds dm) else selectedIds dm @ [i])"
  by (simp add: toggleDependency_def)

lemma toggleDependency_distinct:
  "distinct (selectedIds dm) \<Longrightarrow> distinct (selectedIds (toggleDependency i dm))"
  by (simp add: toggleDependency_selectedIds)

lemma toggle_sequence_distinct:
  "distinct (selectedIds dm) \<Longrightarrow> distinct (selectedIds (fold toggleDependency ids dm))"
  by (induction ids arbitrary: dm) (simp_all add: toggleDependency_distinct)

text \<open>
  Claim C7. Toggling the same id twice in a row gives back the original selection
  set. One call appends the id at the end when it is absent and removes it when it is
  present, and in both cases the other ids stay in the order they were in.
\<close>

theorem toggleDependency_twice:
  "set (selectedIds (toggleDependency i (toggleDependency i dm))) = set (selectedIds dm)
   \<and> (i \<notin> set (selectedIds dm) \<longrightarrow> selectedIds (toggleDependency i dm) = selectedIds dm @ [i])
   \<and> (i \<in> set (selectedIds dm) \<longrightarrow> i \<notin> set (selectedIds (toggleDependency i dm)))
   \<and> filter (\<lambda>x. x \<noteq> i) (selectedIds (toggleDependency i dm)) = filter (\<lambda>x. x \<noteq> i) (selectedIds dm)"
  by (auto simp add: toggleDependency_selectedIds)

theorem toggleDependency_twice_witness:
  "selectedIds (toggleDependency ''jpa'' (emptyManager\<lparr>selectedIds := [''web'']\<rparr>)) = [''web'', ''jpa'']
   \<and> ''web'' \<notin> set (selectedIds (toggleDependency ''web'' (emptyManager\<lparr>selectedIds := [''web'']\<rparr>)))
   \<and> set (selectedIds (toggleDependency ''web''
             (toggleDependency ''web'' (emptyManager\<lparr>selectedIds := [''web'']\<rparr>)))) = {''web''}"
  using toggleDependency_twice [of "''jpa''" "emptyManager\<lparr>selectedIds := [''web'']\<rparr>"]
        toggleDependency_twice [of "''web''" "emptyManager\<lparr>selectedIds := [''web'']\<rparr>"]
  by (simp add: emptyManager_def)

text \<open>
  Claim C10. Whatever ids are toggled, in whatever order, on a manager whose
  selection starts empty, no id occurs twice in \<open>selectedIds\<close> afterwards.
\<close>

theorem toggle_from_empty_distinct:
  "distinct (selectedIds (fold toggleDependency ids (dm\<lparr>selectedIds := []\<rparr>)))"
  by (rule toggle_sequence_distinct) simp

section \<open>The display list\<close>

text \<open>
  The loop's variable \<open>group\<close> is assigned only under a test that asks for it to be
  defined already, so it stays undefined and the loop adds the entries alone.
\<close>

lemma unselectedLoop_no_separator:
  "unselectedLoop None ds ret = ret @ map dependencyItem ds"
  by (induction ds arbitrary: ret) simp_all

text \<open>
  Claim C3. For the catalog of the two entries Web (group Core) and JPA (group SQL),
  none of them selected, the display list is the selection summary followed by the two
  entries: no separator stands between them, although their group labels differ.
\<close>

theorem unselected_groups_not_separated:
  "fst (getQuickPickItems catalogAB None False emptyManager) =
     [\<lparr>description = Some [], item_id = Some [], itemType = ''selection'',
       label = Some ''Selected 0 dependencies''\<rparr>,
      \<lparr>description = Some ''Core'', item_id = Some ''a'', itemType = ''dependency'', label = Some ''Web''\<rparr>,
      \<lparr>description = Some ''SQL'', item_id = Some ''b'', itemType = ''dependency'', label = Some ''JPA''\<rparr>]"
  by (simp add: getQuickPickItems_def catalogAB_def emptyManager_def initialize_def List.map_filter_simps
      getSelectedDependencies_def getUnselectedDependencies_def dependencyItem_def decimal.simps
      unselectedLoop_no_separator)

section \<open>The wizard's steps on a dismissed or defaulted question\<close>

text \<open>
  Claim C1, as stated: at the ArtifactId step, with the GroupId step on the
  navigation stack, a dismissed input box would make \<open>execute\<close> return the GroupId
  step. It does not: \<open>execute\<close> ends with the cancellation error.
\<close>

theorem artifactId_dismissed_counterexample:
  "pickSteps (metadata wizardAfterGroupId) = [SpecifyGroupIdStep]
   \<and> SpecifyArtifactIdStep_execute None wizardAfterGroupId
       = Inl (OperationCanceledError ''ArtifactId not specified.'')"
  by (simp add: wizardAfterGroupId_def SpecifyArtifactIdStep_execute_def specifyArtifactId_def
        createInputBox_def)

text \<open>
  Claim C1, amended. In every state of the wizard, whatever the navigation stack
  holds, a dismissed input box signals cancellation with the message of its step:
  at the ArtifactId step for \<open>execute\<close> as a whole, and for the input boxes of the
  GroupId and PackageName steps.
\<close>

theorem dismissed_input_cancels:
  "SpecifyArtifactIdStep_execute None w = Inl (OperationCanceledError ''ArtifactId not specified.'')
   \<and> createInputBox SpecifyGroupIdStep None w = Inl (OperationCanceledError ''GroupId not specified.'')
   \<and> createInputBox SpecifyArtifactIdStep None w = Inl (OperationCanceledError ''ArtifactId not specified.'')
   \<and> createInputBox SpecifyPackageNameStep None w = Inl (OperationCanceledError ''PackageName not specified.'')"
  by (simp add: SpecifyArtifactIdStep_execute_def specifyArtifactId_def createInputBox_def)

text \<open>
  Claim C5, as stated: a step that takes a default would still record itself on the
  navigation stack. With the configured default language \<open>Java\<close> the Language step
  completes on a fresh descriptor and returns the GroupId step, and the stack is
  still empty.
\<close>

theorem language_default_counterexample:
  "SpecifyLanguageStep_execute readmeConfiguration None freshMetadata
     = Inr (Some SpecifyGroupIdStep, freshMetadata\<lparr>language := Some ''java''\<rparr>)
   \<and> pickSteps (freshMetadata\<lparr>language := Some ''java''\<rparr>) = []"
  by (simp add: SpecifyLanguageStep_execute_def specifyLanguage_def readmeConfiguration_def
        freshMetadata_def js_or_def truthy_def popOrNext_def toLowerCase_def toLowerChar_def)

lemma popOrNext_True: "popOrNext s True md = (getNextStep s, md)"
  by (simp add: popOrNext_def)

text \<open>
  Claim C5, amended. When a default is present (the caller's one first, the
  configured one otherwise), the Language and the Packaging step store it in lower
  case, return the next step and leave the navigation stack as it is. When no
  default is present and the pick box of the Language or Packaging step is answered,
  that step stores the answer in lower case, pushes itself on the navigation stack
  and returns the next step.
\<close>

theorem default_leaves_stack:
  "(truthy (js_or (default_language (defaults md)) (defaultLanguage cfg)) \<longrightarrow>
      SpecifyLanguageStep_execute cfg selected md =
        Inr (Some SpecifyGroupIdStep,
             md\<lparr>language := map_option toLowerCase (js_or (default_language (defaults md)) (defaultLanguage cfg))\<rparr>)
      \<and> pickSteps (md\<lparr>language := map_option toLowerCase (js_or (default_language (defaults md)) (defaultLanguage cfg))\<rparr>)
          = pickSteps md)
   \<and> (truthy (js_or (default_packaging (defaults md)) (defaultPackaging cfg)) \<longrightarrow>
      SpecifyPackagingStep_execute cfg selected md =
        Inr (Some SpecifyJavaVersionStep,
             md\<lparr>packaging := map_option toLowerCase (js_or (default_packaging (defaults md)) (defaultPackaging cfg))\<rparr>)
      \<and> pickSteps (md\<lparr>packaging := map_option toLowerCase (js_or (default_packaging (defaults md)) (defaultPackaging cfg))\<rparr>)
          = pickSteps md)
   \<and> (\<not> truthy (js_or (default_language (defaults md)) (defaultLanguage cfg)) \<longrightarrow>
      SpecifyLanguageStep_execute cfg (Some picked) md =
        Inr (Some SpecifyGroupIdStep,
             md\<lparr>language := map_option toLowerCase (hi_label picked),
                pickSteps := pickSteps md @ [SpecifyLanguageStep]\<rparr>))
   \<and> (\<not> truthy (js_or (default_packaging (defaults md)) (defaultPackaging cfg)) \<longrightarrow>
      SpecifyPackagingStep_execute cfg (Some picked) md =
        Inr (Some SpecifyJavaVersionStep,
             md\<lparr>packaging := map_option toLowerCase (hi_label picked),
                pickSteps := pickSteps md @ [SpecifyPackagingStep]\<rparr>))"
  by (simp add: SpecifyLanguageStep_execute_def specifyLanguage_def SpecifyPackagingStep_execute_def
        specifyPackaging_def createPickBox_def popOrNext_True)

theorem default_leaves_stack_witness:
  "SpecifyLanguageStep_execute readmeConfiguration None freshMetadata
     = Inr (Some SpecifyGroupIdStep, freshMetadata\<lparr>language := Some ''java''\<rparr>)
   \<and> SpecifyPackagingStep_execute readmeConfiguration None freshMetadata
     = Inr (Some SpecifyJavaVersionStep, freshMetadata\<lparr>packaging := Some ''jar''\<rparr>)
   \<and> SpecifyLanguageStep_execute bareConfiguration
        (Some \<lparr>hi_label = Some ''Kotlin'', hi_value_id = Some ''kotlin''\<rparr>) freshMetadata
     = Inr (Some SpecifyGroupIdStep,
            freshMetadata\<lparr>language := Some ''kotlin'', pickSteps := [SpecifyLanguageStep]\<rparr>)
   \<and> SpecifyPackagingStep_execute bareConfiguration
        (Some \<lparr>hi_label = Some ''War'', hi_value_id = Some ''war''\<rparr>) freshMetadata
     = Inr (Some SpecifyJavaVersionStep,
            freshMetadata\<lparr>packaging := Some ''war'', pickSteps := [SpecifyPackagingStep]\<rparr>)"
  using default_leaves_stack [of freshMetadata readmeConfiguration None]
        default_leaves_stack [of freshMetadata bareConfiguration _
                                 "\<lparr>hi_label = Some ''Kotlin'', hi_value_id = Some ''kotlin''\<rparr>"]
        default_leaves_stack [of freshMetadata bareConfiguration _
                                 "\<lparr>hi_label = Some ''War'', hi_value_id = Some ''war''\<rparr>"]
  by (simp add: readmeConfiguration_def bareConfiguration_def freshMetadata_def js_or_def truthy_def
        toLowerCase_def toLowerChar_def)

section \<open>Validation of the entered identifiers\<close>

text \<open>
  Claim C6. The three validation functions reject the inputs \<open>My App\<close>,
  \<open>1bad..Group\<close> and \<open>com.Example.\<close>; all the same, in every state of the wizard
  the ArtifactId step stores \<open>My App\<close> in the descriptor, pushes itself and hands
  over to the PackageName step, and the input boxes of the GroupId and PackageName
  steps store the other two and report success.
\<close>

theorem malformed_input_accepted:
  "artifactIdValidation ''My App'' = Some ''Invalid Artifact Id''
   \<and> SpecifyArtifactIdStep_execute (Some ''My App'') w =
       Inr (Some SpecifyPackageNameStep,
            w\<lparr>metadata := (metadata w)\<lparr>md_artifactId := Some ''My App'',
                                         pickSteps := pickSteps (metadata w) @ [SpecifyArtifactIdStep]\<rparr>,
              artifactIdDefaultInput := Some ''My App''\<rparr>)
   \<and> groupIdValidation ''1bad..Group'' = Some ''Invalid Group Id''
   \<and> createInputBox SpecifyGroupIdStep (Some ''1bad..Group'') w =
       Inr (True,
            w\<lparr>metadata := (metadata w)\<lparr>md_groupId := Some ''1bad..Group'',
                                         pickSteps := pickSteps (metadata w) @ [SpecifyGroupIdStep]\<rparr>,
              groupIdDefaultInput := Some ''1bad..Group''\<rparr>)
   \<and> packageNameValidation ''com.Example.'' = Some ''Invalid Package Name''
   \<and> createInputBox SpecifyPackageNameStep (Some ''com.Example.'') w =
       Inr (True,
            w\<lparr>metadata := (metadata w)\<lparr>packageName := Some ''com.Example.'',
                                         pickSteps := pickSteps (metadata w) @ [SpecifyPackageNameStep]\<rparr>,
              packageNameDefaultInput := Some ''com.Example.''\<rparr>)"
  by (simp add: artifactIdValidation_def groupIdValidation_def packageNameValidation_def matches_def
        hyphenatedPattern_def dottedPattern_def lowerOrUnderscore_def lowerDigitOrUnderscore_def Plus_def
        SpecifyArtifactIdStep_execute_def specifyArtifactId_def createInputBox_def popOrNext_True Let_def)

section \<open>The text of a fragment\<close>

lemma rev_differs: "rev xs \<noteq> rev ys \<Longrightarrow> xs \<noteq> ys"
  by auto

lemma wrapper_lines_differ:
  "''<dependency>'' \<noteq> i @ ''<version>'' @ v @ ''</version>''"
  "''</dependency>'' \<noteq> i @ ''<version>'' @ v @ ''</version>''"
  "''<dependency>'' \<noteq> i @ ''<scope>'' @ v @ ''</scope>''"
  "''</dependency>'' \<noteq> i @ ''<scope>'' @ v @ ''</scope>''"
  by (rule rev_differs, simp)+

text \<open>
  Claim C9. The lines of an artifact always hold its \<open>groupId\<close> and \<open>artifactId\<close>
  elements. They hold a \<open>version\<close> element only if a version is given (and then it is
  the given, non-empty one), and a \<open>scope\<close> element only if a scope is given that is
  not \<open>compile\<close>; a given non-empty version, and a given non-empty scope other than
  \<open>compile\<close>, are rendered. The lines of a bom are its \<open>groupId\<close>, \<open>artifactId\<close>
  and \<open>version\<close> elements followed by the fixed \<open>type\<close> and \<open>scope\<close> elements.
\<close>

theorem fragment_rendering:
  "indent @ ''<groupId>'' @ groupId a @ ''</groupId>'' \<in> set (toTextLine a indent)
   \<and> indent @ ''<artifactId>'' @ artifactId a @ ''</artifactId>'' \<in> set (toTextLine a indent)
   \<and> ((\<exists>v. indent @ ''<version>'' @ v @ ''</version>'' \<in> set (toTextLine a indent))
        \<longrightarrow> (\<exists>v. version a = Some v \<and> v \<noteq> []))
   \<and> ((\<exists>s. indent @ ''<scope>'' @ s @ ''</scope>'' \<in> set (toTextLine a indent))
        \<longrightarrow> (\<exists>s. scope a = Some s \<and> s \<noteq> [] \<and> s \<noteq> ''compile''))
   \<and> (\<forall>v. version a = Some v \<and> v \<noteq> []
        \<longrightarrow> indent @ ''<version>'' @ v @ ''</version>'' \<in> set (toTextLine a indent))
   \<and> (\<forall>s. scope a = Some s \<and> s \<noteq> [] \<and> s \<noteq> ''compile''
        \<longrightarrow> indent @ ''<scope>'' @ s @ ''</scope>'' \<in> set (toTextLine a indent))
   \<and> bomToTextLine b indent =
        [''<dependency>'',
         indent @ ''<groupId>'' @ bom_groupId b @ ''</groupId>'',
         indent @ ''<artifactId>'' @ bom_artifactId b @ ''</artifactId>'',
         indent @ ''<version>'' @ bom_version b @ ''</version>'',
         indent @ ''<type>pom</type>'',
         indent @ ''<scope>import</scope>'',
         ''</dependency>'']"
  by (auto simp add: toTextLine_def bomToTextLine_def wrapWithParentNode_def List.map_filter_simps
        truthy_def template_def wrapper_lines_differ split: option.splits)

theorem fragment_rendering_witness:
  "toTextLine starterH2 ''  '' =
     [''<dependency>'', ''  <groupId>com.h2database</groupId>'', ''  <artifactId>h2</artifactId>'',
      ''  <version>2.2.224</version>'', ''  <scope>runtime</scope>'', ''</dependency>'']
   \<and> (\<exists>v. version starterH2 = Some v \<and> v \<noteq> [])
   \<and> (\<exists>s. scope starterH2 = Some s \<and> s \<noteq> [] \<and> s \<noteq> ''compile'')"
proof -
  have rendered: "toTextLine starterH2 ''  '' =
     [''<dependency>'', ''  <groupId>com.h2database</groupId>'', ''  <artifactId>h2</artifactId>'',
      ''  <version>2.2.224</version>'', ''  <scope>runtime</scope>'', ''</dependency>'']"
    by (simp add: toTextLine_def starterH2_def wrapWithParentNode_def List.map_filter_simps
          truthy_def template_def)
  have v: "\<exists>v. ''  '' @ ''<version>'' @ v @ ''</version>'' \<in> set (toTextLine starterH2 ''  '')"
    unfolding rendered by (rule exI [of _ "''2.2.224''"]) simp
  have s: "\<exists>s. ''  '' @ ''<scope>'' @ s @ ''</scope>'' \<in> set (toTextLine starterH2 ''  '')"
    unfolding rendered by (rule exI [of _ "''runtime''"]) simp
  from fragment_rendering [of "''  ''" starterH2 cloudBom] v s
  have "(\<exists>v. version starterH2 = Some v \<and> v \<noteq> [])
        \<and> (\<exists>s. scope starterH2 = Some s \<and> s \<noteq> [] \<and> s \<noteq> ''compile'')"
    by blast
  with rendered show ?thesis
    by (rule conjI)
qed

section \<open>The patcher\<close>

subsection \<open>The sample documents\<close>

lemma lineDocument_fields:
  "uri (lineDocument u t) = u"
  "getText (lineDocument u t) = t"
  "positionAt (lineDocument u t) offset = walk t (nat offset) \<lparr>line = 0, character = 0\<rparr>"
  "getTextRange (lineDocument u t) r =
     take (offsetOf t (range_end r) - offsetOf t (range_start r)) (drop (offsetOf t (range_start r)) t)"
  by (simp_all add: lineDocument_def)

lemma sample_lexer:
  "getNodesByTag sampleEnv (getText pomNoRoot) XmlTagName_Project = Some []"
  "getNodesByTag sampleEnv (getText pomTwoRoots) XmlTagName_Project
     = Some [Element ''project'' 0 18 [], Element ''project'' 19 37 []]"
  "getNodesByTag sampleEnv (getText pomBare) XmlTagName_Project = Some [pomBare_project]"
  "getNodesByTag sampleEnv (getText pomManagement) XmlTagName_Project = Some [pomManagement_project]"
  "getNodesByTag sampleEnv (getText pomFull) XmlTagName_Project = Some [pomFull_project]"
  by (simp_all add: sampleEnv_def XmlTagName_Project_def pomNoRoot_def pomTwoRoots_def pomBare_def
        pomManagement_def pomFull_def pomSelfClosing_def lineDocument_fields)

subsection \<open>A descriptor without a single root\<close>

lemma getActiveProjectNode_single:
  "getNodesByTag ev (getText doc) XmlTagName_Project = Some [p] \<Longrightarrow> getActiveProjectNode ev doc = Inr p"
  by (simp add: getActiveProjectNode_def)

lemma getActiveProjectNode_other:
  assumes "\<And>p. getNodesByTag ev (getText doc) XmlTagName_Project \<noteq> Some [p]"
  shows "getActiveProjectNode ev doc = Inl (UserError ''Only support POM file with single <project> node.'')"
proof (cases "getNodesByTag ev (getText doc) XmlTagName_Project")
  case None
  then show ?thesis by (simp add: getActiveProjectNode_def)
next
  case (Some ns)
  have "length ns \<noteq> 1"
  proof
    assume "length ns = 1"
    then obtain p where "ns = [p]" by (cases ns) auto
    with Some assms show False by simp
  qed
  with Some show ?thesis by (simp add: getActiveProjectNode_def)
qed

text \<open>
  Claim C4. When the lexer does not find exactly one \<open>project\<close> element in the
  document's text (none, several, or no answer at all), \<open>updatePom\<close> ends with the
  error \<open>Only support POM file with single <project> node.\<close> and the host is as
  before: no edit has been handed to \<open>applyEdit\<close>.
\<close>

theorem updatePom_requires_single_project:
  assumes "\<And>p. getNodesByTag ev (getText doc) XmlTagName_Project \<noteq> Some [p]"
  shows "updatePom ev doc deps boms h =
           (Inl (UserError ''Only support POM file with single <project> node.''), h)"
  using getActiveProjectNode_other [OF assms] by (simp add: updatePom_def)

theorem updatePom_requires_single_project_witness:
  "updatePom sampleEnv pomNoRoot [starterWeb] [cloudBom] noHost =
     (Inl (UserError ''Only support POM file with single <project> node.''), noHost)
   \<and> updatePom sampleEnv pomTwoRoots [starterWeb] [cloudBom] noHost =
     (Inl (UserError ''Only support POM file with single <project> node.''), noHost)"
proof -
  have none: "\<And>p. getNodesByTag sampleEnv (getText pomNoRoot) XmlTagName_Project \<noteq> Some [p]"
    by (simp add: sample_lexer)
  have two: "\<And>p. getNodesByTag sampleEnv (getText pomTwoRoots) XmlTagName_Project \<noteq> Some [p]"
    by (simp add: sample_lexer)
  from updatePom_requires_single_project [OF none] updatePom_requires_single_project [OF two]
  show ?thesis by simp
qed

subsection \<open>The edit that is applied\<close>

lemma updateWorkspaceEdit_changes:
  "changes (updateWorkspaceEdit ev e doc n pn) =
     (changes e)(uri doc \<mapsto>
        [TextEdit_insert (insertPosition doc n)
           (constructNodeText pn (getIndentation doc (startIndex n)) (editorIndent ev) (platformEol ev))])"
  by (simp add: updateWorkspaceEdit_def)

lemma updateWorkspaceEdit_overwrites:
  "updateWorkspaceEdit ev (updateWorkspaceEdit ev \<lparr>changes = Map.empty\<rparr> doc n1 pn1) doc n2 pn2 =
     \<lparr>changes = [uri doc \<mapsto>
        [TextEdit_insert (insertPosition doc n2)
           (constructNodeText pn2 (getIndentation doc (startIndex n2)) (editorIndent ev) (platformEol ev))]]\<rparr>"
  by (simp add: updateWorkspaceEdit_def)

text \<open>
  Claim C2. On the descriptor \<open>pomBare\<close> (a root without children), with the
  artifact \<open>starterWeb\<close> and the bom \<open>cloudBom\<close>, \<open>updatePom\<close> returns normally. The
  first call of \<open>updateWorkspaceEdit\<close> computes the insertion of the \<open>dependencies\<close>
  block, but the one workspace edit that is applied holds a single text edit for the
  document, the \<open>dependencyManagement\<close> block: the dependency insertion is not in it.
\<close>

theorem bom_edit_replaces_dependency_edit:
  "fst (updatePom sampleEnv pomBare [starterWeb] [cloudBom] noHost) = Inr ()
   \<and> changes (updateWorkspaceEdit sampleEnv \<lparr>changes = Map.empty\<rparr> pomBare pomBare_project
                (DependencyNodes [starterWeb] True)) (uri pomBare)
       = Some [TextEdit_insert \<lparr>line = 1, character = 0\<rparr>
                 (join [CHR 0x0A]
                    ['''',
                     ''  <dependencies>'',
                     ''    <dependency>'',
                     ''      <groupId>org.springframework.boot</groupId>'',
                     ''      <artifactId>spring-boot-starter-web</artifactId>'',
                     ''    </dependency>'',
                     ''  </dependencies>'',
                     ''''])]
   \<and> map (\<lambda>e. changes e (uri pomBare))
         (applied (snd (updatePom sampleEnv pomBare [starterWeb] [cloudBom] noHost)))
       = [Some [TextEdit_insert \<lparr>line = 1, character = 0\<rparr>
                  (join [CHR 0x0A]
                     ['''',
                      ''  <dependencyManagement>'',
                      ''    <dependencies>'',
                      ''      <dependency>'',
                      ''        <groupId>org.springframework.cloud</groupId>'',
                      ''        <artifactId>spring-cloud-dependencies</artifactId>'',
                      ''        <version>2023.0.0</version>'',
                      ''        <type>pom</type>'',
                      ''        <scope>import</scope>'',
                      ''      </dependency>'',
                      ''    </dependencies>'',
                      ''  </dependencyManagement>'',
                      ''''])]]"
  by code_simp

text \<open>
  With one \<open>project\<close> root and at least one bom, the text of the applied edit is
  (a) the bare bom lines when \<open>dependencyManagement\<close> and its \<open>dependencies\<close> exist,
  (b) the lines wrapped in \<open>dependencies\<close> when only \<open>dependencyManagement\<close> exists,
  (c) the lines wrapped in \<open>dependencies\<close> and then in \<open>dependencyManagement\<close> when
  neither exists; its place is what \<open>insertPosition\<close> computes for the inner
  \<open>dependencies\<close> element, the \<open>dependencyManagement\<close> element and the root.
\<close>

lemma bom_wrap_depth:
  assumes "getNodesByTag ev (getText doc) XmlTagName_Project = Some [projectNode]"
    and "boms \<noteq> []"
  shows
    "(\<forall>m d. findChild XmlTagName_DependencyManagement (children projectNode) = Some m
            \<and> findChild XmlTagName_Dependencies (children m) = Some d \<longrightarrow>
        updatePom ev doc deps boms h =
          (Inr (), h\<lparr>applied := applied h @
             [\<lparr>changes = [uri doc \<mapsto>
                 [TextEdit_insert (insertPosition doc d)
                    (join (platformEol ev @ getIndentation doc (startIndex d) @ editorIndent ev)
                       ([] # concat (map (\<lambda>b. bomToTextLine b (editorIndent ev)) boms))
                     @ platformEol ev)]]\<rparr>]\<rparr>))
     \<and> (\<forall>m. findChild XmlTagName_DependencyManagement (children projectNode) = Some m
            \<and> findChild XmlTagName_Dependencies (children m) = None \<longrightarrow>
        updatePom ev doc deps boms h =
          (Inr (), h\<lparr>applied := applied h @
             [\<lparr>changes = [uri doc \<mapsto>
                 [TextEdit_insert (insertPosition doc m)
                    (join (platformEol ev @ getIndentation doc (startIndex m) @ editorIndent ev)
                       ([] # wrapWithParentNode
                               (concat (map (\<lambda>b. bomToTextLine b (editorIndent ev)) boms))
                               (editorIndent ev) ''dependencies'')
                     @ platformEol ev)]]\<rparr>]\<rparr>))
     \<and> (findChild XmlTagName_DependencyManagement (children projectNode) = None \<longrightarrow>
        updatePom ev doc deps boms h =
          (Inr (), h\<lparr>applied := applied h @
             [\<lparr>changes = [uri doc \<mapsto>
                 [TextEdit_insert (insertPosition doc projectNode)
                    (join (platformEol ev @ getIndentation doc (startIndex projectNode) @ editorIndent ev)
                       ([] # wrapWithParentNode
                               (wrapWithParentNode
                                  (concat (map (\<lambda>b. bomToTextLine b (editorIndent ev)) boms))
                                  (editorIndent ev) ''dependencies'')
                               (editorIndent ev) ''dependencyManagement'')
                     @ platformEol ev)]]\<rparr>]\<rparr>))"
proof -
  note project = getActiveProjectNode_single [OF assms(1)]
  from assms(2) have nonempty: "length boms > 0" by simp
  have a: "\<forall>m d. findChild XmlTagName_DependencyManagement (children projectNode) = Some m
            \<and> findChild XmlTagName_Dependencies (children m) = Some d \<longrightarrow>
        updatePom ev doc deps boms h =
          (Inr (), h\<lparr>applied := applied h @
             [\<lparr>changes = [uri doc \<mapsto>
                 [TextEdit_insert (insertPosition doc d)
                    (join (platformEol ev @ getIndentation doc (startIndex d) @ editorIndent ev)
                       ([] # concat (map (\<lambda>b. bomToTextLine b (editorIndent ev)) boms))
                     @ platformEol ev)]]\<rparr>]\<rparr>)"
    using project nonempty
    by (simp add: updatePom_def updateWorkspaceEdit_def applyEdit_def constructNodeText_def Let_def
          split: option.splits)
  have b: "\<forall>m. findChild XmlTagName_DependencyManagement (children projectNode) = Some m
            \<and> findChild XmlTagName_Dependencies (children m) = None \<longrightarrow>
        updatePom ev doc deps boms h =
          (Inr (), h\<lparr>applied := applied h @
             [\<lparr>changes = [uri doc \<mapsto>
                 [TextEdit_insert (insertPosition doc m)
                    (join (platformEol ev @ getIndentation doc (startIndex m) @ editorIndent ev)
                       ([] # wrapWithParentNode
                               (concat (map (\<lambda>b. bomToTextLine b (editorIndent ev)) boms))
                               (editorIndent ev) ''dependencies'')
                     @ platformEol ev)]]\<rparr>]\<rparr>)"
    using project nonempty
    by (simp add: updatePom_def updateWorkspaceEdit_def applyEdit_def constructNodeText_def Let_def
          split: option.splits)
  have c: "findChild XmlTagName_DependencyManagement (children projectNode) = None \<longrightarrow>
        updatePom ev doc deps boms h =
          (Inr (), h\<lparr>applied := applied h @
             [\<lparr>changes = [uri doc \<mapsto>
                 [TextEdit_insert (insertPosition doc projectNode)
                    (join (platformEol ev @ getIndentation doc (startIndex projectNode) @ editorIndent ev)
                       ([] # wrapWithParentNode
                               (wrapWithParentNode
                                  (concat (map (\<lambda>b. bomToTextLine b (editorIndent ev)) boms))
                                  (editorIndent ev) ''dependencies'')
                               (editorIndent ev) ''dependencyManagement'')
                     @ platformEol ev)]]\<rparr>]\<rparr>)"
    using project nonempty
    by (simp add: updatePom_def updateWorkspaceEdit_def applyEdit_def constructNodeText_def Let_def
          split: option.splits)
  from a b c show ?thesis by (intro conjI)
qed

text \<open>
  Claim C8. On the descriptor \<open>pomSelfClosing\<close>, whose root holds the self-closing
  element \<open>dependencyManagement\<close> at the offsets 12 to 34 (line 1, column 2), only
  \<open>dependencyManagement\<close> exists. The offset computed for its closing tag is the
  offset where the element starts, and the \<open>dependencies\<close> block is inserted at
  line 1, column 0: in front of the element, not inside it.
\<close>

theorem self_closing_management_insertion:
  "findChild XmlTagName_DependencyManagement (children pomSelfClosing_project)
     = Some pomSelfClosing_management
   \<and> findChild XmlTagName_Dependencies (children pomSelfClosing_management) = None
   \<and> insertOffset pomSelfClosing_management = startIndex pomSelfClosing_management
   \<and> positionAt pomSelfClosing (startIndex pomSelfClosing_management) = \<lparr>line = 1, character = 2\<rparr>
   \<and> getNodesByTag sampleEnv (getText pomSelfClosing) XmlTagName_Project = Some [pomSelfClosing_project]
   \<and> fst (updatePom sampleEnv pomSelfClosing [starterWeb] [cloudBom] noHost) = Inr ()
   \<and> map (\<lambda>e. changes e (uri pomSelfClosing))
         (applied (snd (updatePom sampleEnv pomSelfClosing [starterWeb] [cloudBom] noHost)))
       = [Some [TextEdit_insert \<lparr>line = 1, character = 0\<rparr>
                  (join [CHR 0x0A]
                     ['''',
                      ''    <dependencies>'',
                      ''      <dependency>'',
                      ''        <groupId>org.springframework.cloud</groupId>'',
                      ''        <artifactId>spring-cloud-dependencies</artifactId>'',
                      ''        <version>2023.0.0</version>'',
                      ''        <type>pom</type>'',
                      ''        <scope>import</scope>'',
                      ''      </dependency>'',
                      ''    </dependencies>'',
                      ''''])]]"
  by code_simp

end
